theory Spec2Isabelle
  imports Complex_Main "HOL-Library.Sublist"
begin

section \<open>Strings as Python uses them\<close>

text \<open>
  A Python \<open>str\<close> is a sequence of code points; the model keeps the code points below 256
  as a \<open>char list\<close>. \<open>lower_char\<close> is \<open>str.lower\<close> on one such code point: the ASCII
  capitals and the Latin-1 capitals (U+00C0 to U+00DE without the multiplication sign)
  move up by 32, every other code point stays. Beyond Latin-1 only U+0130 and U+212A
  lower-case to text holding an ASCII letter (\<open>i\<close> followed by U+0307, and \<open>k\<close>); no
  keyword of the classifier contains \<open>k\<close> or ends a match on \<open>i\<close>, so they change no
  membership test below.
\<close>

definition lower_char :: "char \<Rightarrow> char" where
  "lower_char c =
     (let n = (of_char c :: nat)
      in if (65 \<le> n \<and> n \<le> 90) \<or> (192 \<le> n \<and> n \<le> 222 \<and> n \<noteq> 215)
         then char_of (n + 32) else c)"

definition lower :: "string \<Rightarrow> string" where
  "lower s = map lower_char s"

text \<open>Python's \<open>sub in text\<close> on strings: \<open>sub\<close> occurs as a contiguous piece.\<close>

fun str_in :: "string \<Rightarrow> string \<Rightarrow> bool" where
  "str_in sub [] = (sub = [])"
| "str_in sub (c # cs) = (prefix sub (c # cs) \<or> str_in sub cs)"

text \<open>Python's \<open>sep.join(parts)\<close>.\<close>

fun join :: "string \<Rightarrow> string list \<Rightarrow> string" where
  "join sep [] = []"
| "join sep [x] = x"
| "join sep (x # y # ys) = x @ sep @ join sep (y # ys)"

definition nl :: string where
  "nl = [CHR 0x0A]"

text \<open>\<open>str(n)\<close> on an integer: decimal digits, a minus sign for a negative number.\<close>

definition digit_char :: "nat \<Rightarrow> char" where
  "digit_char d = char_of (48 + d)"

fun str_nat :: "nat \<Rightarrow> string" where
  "str_nat n = (if n < 10 then [digit_char n] else str_nat (n div 10) @ [digit_char (n mod 10)])"

definition str_int :: "int \<Rightarrow> string" where
  "str_int i = (if i < 0 then CHR ''-'' # str_nat (nat (- i)) else str_nat (nat i))"


section \<open>The completion service and the world\<close>

text \<open>
  Every component sends one request, \<open>client.chat.completions.create(model, messages,
  max_tokens)\<close>, and reads \<open>response.choices[0].message.content\<close> inside a \<open>try\<close> block.
  The service is outside the program: the model takes it as a parameter that may answer
  differently depending on the requests it has seen. \<open>Inr text\<close> is the returned content,
  \<open>Inl cause\<close> is \<open>str(e)\<close> of whatever exception the block raised.
\<close>

record message =
  role :: string
  content :: string

record completion_request =
  model :: string
  messages :: "message list"
  max_tokens :: nat

type_synonym completion_service =
  "completion_request list \<Rightarrow> completion_request \<Rightarrow> string + string"

text \<open>
  One entry of \<open>MetricsTracker.requests\<close>. Python floats are idealised as rationals;
  \<open>timestamp\<close> holds the clock reading that \<open>datetime.now().isoformat()\<close> prints.
\<close>

record request_data =
  timestamp :: rat
  request_type :: string
  agents_used :: "string list"
  response_time :: rat
  status :: string
  time_saved :: int
  cost_saved :: rat

text \<open>
  The environment supplies the service and the clock (\<open>clock k\<close> is what the \<open>k\<close>-th
  reading of \<open>time.time()\<close> or \<open>datetime.now()\<close> returns). The world is everything the
  program mutates or that can be observed from outside: the tracker's list, its start
  time, the requests sent to the service so far, and the number of clock readings.
\<close>

record env =
  svc :: completion_service
  clock :: "nat \<Rightarrow> rat"

record world =
  requests :: "request_data list"
  start_time :: rat
  calls :: "completion_request list"
  ticks :: nat

definition create :: "env \<Rightarrow> completion_request \<Rightarrow> world \<Rightarrow> (string + string) \<times> world" where
  "create e rq w = (svc e (calls w) rq, w\<lparr>calls := calls w @ [rq]\<rparr>)"

definition time_time :: "env \<Rightarrow> world \<Rightarrow> rat \<times> world" where
  "time_time e w = (clock e (ticks w), w\<lparr>ticks := Suc (ticks w)\<rparr>)"


section \<open>OrchestratorAgent\<close>

text \<open>
  The dictionary \<open>analyze_request\<close> returns has the keys \<open>agents_needed\<close> and \<open>priority\<close>
  on both paths, \<open>analysis\<close> and \<open>original_request\<close> on success only and \<open>error\<close> on
  failure only: an absent key is \<open>None\<close>.
\<close>

record routing =
  error :: "string option"
  agents_needed :: "string list"
  priority :: string
  analysis :: "string option"
  original_request :: "string option"

definition orchestrator_system_prompt :: string where
  "orchestrator_system_prompt = join nl
     [''You are a hospital coordination system orchestrator.'',
      ''Analyze requests and determine which agents should be activated:'',
      '''',
      ''Available agents:'',
      ''1. supply_chain_agent - Handles inventory, supplies, equipment'',
      ''2. clinical_agent - Handles patient safety, drug interactions, protocols'',
      ''3. discharge_agent - Handles patient discharge planning'',
      '''',
      ''Respond in this exact format:'',
      ''AGENTS_NEEDED: [comma-separated list]'',
      ''PRIORITY: [HIGH/MEDIUM/LOW]'',
      ''REASONING: [brief explanation]'']"

definition orchestrator_messages :: "string \<Rightarrow> message list" where
  "orchestrator_messages request =
     [\<lparr>role = ''system'', content = orchestrator_system_prompt\<rparr>,
      \<lparr>role = ''user'', content = ''Request: '' @ request\<rparr>]"

text \<open>Lines 69 to 75: three independent tests, each appending to the list.\<close>

definition parse_agents :: "string \<Rightarrow> string list" where
  "parse_agents reply =
     (let a0 = [];
          a1 = (if str_in ''supply_chain'' (lower reply) then a0 @ [''supply_chain_agent''] else a0);
          a2 = (if str_in ''clinical'' (lower reply) then a1 @ [''clinical_agent''] else a1);
          a3 = (if str_in ''discharge'' (lower reply) then a2 @ [''discharge_agent''] else a2)
      in a3)"

definition parse_priority :: "string \<Rightarrow> string" where
  "parse_priority reply = (if str_in ''HIGH'' reply then ''HIGH'' else ''MEDIUM'')"

definition classifier_request :: "string \<Rightarrow> completion_request" where
  "classifier_request request =
     \<lparr>model = ''sonar-pro'', messages = orchestrator_messages request, max_tokens = 500\<rparr>"

definition analyze_request :: "env \<Rightarrow> string \<Rightarrow> world \<Rightarrow> routing \<times> world" where
  "analyze_request e request w =
     (case create e (classifier_request request) w of
        (Inr reply, w') \<Rightarrow>
          (\<lparr>error = None, agents_needed = parse_agents reply, priority = parse_priority reply,
            analysis = Some reply, original_request = Some request\<rparr>, w')
      | (Inl cause, w') \<Rightarrow>
          (\<lparr>error = Some cause, agents_needed = [], priority = ''UNKNOWN'',
            analysis = None, original_request = None\<rparr>, w'))"

text \<open>\<open>coordinate\<close> prints and hands the dictionary on unchanged on both paths.\<close>

definition coordinate :: "env \<Rightarrow> string \<Rightarrow> world \<Rightarrow> routing \<times> world" where
  "coordinate e request w =
     (case analyze_request e request w of
        (a, w') \<Rightarrow> (if error a \<noteq> None then (a, w') else (a, w')))"

section \<open>MetricsTracker\<close>

definition MANUAL_SURGERY_PREP_TIME :: int where
  "MANUAL_SURGERY_PREP_TIME = 35"

definition MANUAL_SAFETY_CHECK_TIME :: int where
  "MANUAL_SAFETY_CHECK_TIME = 12"

definition MANUAL_DISCHARGE_PLAN_TIME :: int where
  "MANUAL_DISCHARGE_PLAN_TIME = 120"

definition CLINICAL_STAFF_COST_PER_HOUR :: int where
  "CLINICAL_STAFF_COST_PER_HOUR = 85"

definition ADMIN_STAFF_COST_PER_HOUR :: int where
  "ADMIN_STAFF_COST_PER_HOUR = 45"

text \<open>\<open>_calculate_time_saved\<close>: minutes, an integer; each test is a list membership.\<close>

definition calculate_time_saved :: "string list \<Rightarrow> int" where
  "calculate_time_saved used =
     (let t0 = 0;
          t1 = (if ''supply_chain_agent'' \<in> set used then t0 + MANUAL_SURGERY_PREP_TIME else t0);
          t2 = (if ''clinical_agent'' \<in> set used then t1 + MANUAL_SAFETY_CHECK_TIME else t1);
          t3 = (if ''discharge_agent'' \<in> set used then t2 + MANUAL_DISCHARGE_PLAN_TIME else t2)
      in t3)"

text \<open>\<open>_calculate_cost_saved\<close>: both divisions are Python's true division.\<close>

definition calculate_cost_saved :: "string list \<Rightarrow> rat" where
  "calculate_cost_saved used =
     (let time_saved_hours = of_int (calculate_time_saved used) / 60;
          avg_cost = of_int (CLINICAL_STAFF_COST_PER_HOUR + ADMIN_STAFF_COST_PER_HOUR) / 2
      in time_saved_hours * avg_cost)"

definition log_request ::
  "env \<Rightarrow> string \<Rightarrow> string list \<Rightarrow> rat \<Rightarrow> string \<Rightarrow> world \<Rightarrow> request_data \<times> world" where
  "log_request e rtype used rtime st w =
     (case time_time e w of
        (now, w') \<Rightarrow>
          (let request_data =
                 \<lparr>timestamp = now, request_type = rtype, agents_used = used,
                  response_time = rtime, status = st,
                  time_saved = calculate_time_saved used,
                  cost_saved = calculate_cost_saved used\<rparr>
           in (request_data, w'\<lparr>requests := requests w' @ [request_data]\<rparr>)))"

text \<open>
  \<open>round(x, 2)\<close>: the nearest multiple of one hundredth, a tie going to the even one.
\<close>

definition round_half_even :: "rat \<Rightarrow> int" where
  "round_half_even x =
     (let f = \<lfloor>x\<rfloor>; d = x - of_int f
      in if d < 1 / 2 then f else if 1 / 2 < d then f + 1 else if even f then f else f + 1)"

definition round2 :: "rat \<Rightarrow> rat" where
  "round2 x = of_int (round_half_even (x * 100)) / 100"

text \<open>
  The dictionary of \<open>get_summary_stats\<close>. On an empty list it has five keys, otherwise
  seven: the two projections are \<open>None\<close> when absent.
\<close>

record summary_stats =
  total_requests :: nat
  avg_response_time :: rat
  total_time_saved_hours :: rat
  total_cost_saved :: rat
  daily_cost_saved :: "rat option"
  annual_projection :: "rat option"
  uptime_hours :: rat

definition get_summary_stats :: "env \<Rightarrow> world \<Rightarrow> summary_stats \<times> world" where
  "get_summary_stats e w =
     (if requests w = [] then
        (\<lparr>total_requests = 0, avg_response_time = 0, total_time_saved_hours = 0,
          total_cost_saved = 0, daily_cost_saved = None, annual_projection = None,
          uptime_hours = 0\<rparr>, w)
      else
        (let total_time_saved = sum_list (map time_saved (requests w));
             total_cost = sum_list (map cost_saved (requests w));
             avg = sum_list (map response_time (requests w)) / of_nat (length (requests w))
         in case time_time e w of
              (now, w') \<Rightarrow>
                (let uptime = (now - start_time w') / 3600
                 in (\<lparr>total_requests = length (requests w),
                      avg_response_time = round2 avg,
                      total_time_saved_hours = round2 (of_int total_time_saved / 60),
                      total_cost_saved = round2 total_cost,
                      daily_cost_saved =
                        Some (round2 (if 0 < uptime then total_cost * (24 / uptime) else 0)),
                      annual_projection =
                        Some (round2 (if 0 < uptime then total_cost * (8760 / uptime) else 0)),
                      uptime_hours = round2 uptime\<rparr>, w'))))"

text \<open>
  \<open>self.requests[-limit:]\<close>: a positive \<open>limit\<close> keeps the last \<open>limit\<close> entries; zero
  keeps all of them (\<open>-0\<close> is \<open>0\<close>); a negative one drops the first \<open>-limit\<close>.
\<close>

definition get_recent_requests :: "int \<Rightarrow> world \<Rightarrow> request_data list \<times> world" where
  "get_recent_requests limit w =
     (let n = int (length (requests w))
      in (if 0 < limit then drop (nat (n - limit)) (requests w)
          else drop (nat (- limit)) (requests w), w))"


section \<open>The responders\<close>

text \<open>
  A responder returns one of four dictionaries: one shape per responder on success, and
  \<open>{"error": str(e), "status": "error"}\<close> on failure. \<open>has_error r\<close> is \<open>"error" in r\<close>.
\<close>

datatype agent_result =
    Supply_Analyzed "string list" "(string \<times> int) list" string
  | Clinical_Analyzed string string string
  | Plan_Created string string
  | Agent_Error string

fun has_error :: "agent_result \<Rightarrow> bool" where
  "has_error (Agent_Error cause) = True"
| "has_error r = False"

fun result_status :: "agent_result \<Rightarrow> string" where
  "result_status (Supply_Analyzed items stock reply) = ''analyzed''"
| "result_status (Clinical_Analyzed pid treatment reply) = ''analyzed''"
| "result_status (Plan_Created pid plan) = ''plan_created''"
| "result_status (Agent_Error cause) = ''error''"

subsection \<open>SupplyChainAgent\<close>

text \<open>\<open>self.inventory\<close>, set once in \<open>__init__\<close> and never assigned again, in insertion order.\<close>

definition inventory :: "(string \<times> int) list" where
  "inventory =
     [(''blood_o_positive'', 50), (''blood_ab_negative'', 12), (''surgical_gloves'', 1000),
      (''anesthesia_propofol'', 100), (''sterile_instruments'', 50), (''iv_fluids'', 200)]"

definition format_inventory :: string where
  "format_inventory =
     join nl (map (\<lambda>(item, qty). ''- '' @ item @ '': '' @ str_int qty @ '' units'') inventory)"

definition supply_system_prompt :: string where
  "supply_system_prompt = join nl
     [''You are a hospital supply chain analyst.'',
      ''Given a list of required items and current inventory, determine:'',
      ''1. If supplies are sufficient'',
      ''2. What's missing or low'',
      ''3. Recommendations for ordering'',
      '''',
      ''Respond in format:'',
      ''STATUS: [SUFFICIENT/INSUFFICIENT/CRITICAL]'',
      ''AVAILABLE: [list items with OK stock]'',
      ''LOW_STOCK: [list items running low]'',
      ''MISSING: [list unavailable items]'',
      ''RECOMMENDATIONS: [brief action items]'']"

definition supply_messages :: "string list \<Rightarrow> message list" where
  "supply_messages required_items =
     [\<lparr>role = ''system'', content = supply_system_prompt\<rparr>,
      \<lparr>role = ''user'',
       content = ''Required items: '' @ join '', '' required_items @ nl @
                 ''                '' @ nl @
                 ''Current inventory:'' @ nl @ format_inventory\<rparr>]"

definition check_supplies :: "env \<Rightarrow> string list \<Rightarrow> world \<Rightarrow> agent_result \<times> world" where
  "check_supplies e required_items w =
     (case create e \<lparr>model = ''sonar-pro'', messages = supply_messages required_items,
                     max_tokens = 400\<rparr> w of
        (Inr reply, w') \<Rightarrow> (Supply_Analyzed required_items inventory reply, w')
      | (Inl cause, w') \<Rightarrow> (Agent_Error cause, w'))"

text \<open>\<open>execute\<close> prints the task; only the item list reaches \<open>check_supplies\<close>.\<close>

definition supply_execute ::
  "env \<Rightarrow> string \<Rightarrow> string list option \<Rightarrow> world \<Rightarrow> agent_result \<times> world" where
  "supply_execute e task required_items w =
     (let items = (case required_items of
                     None \<Rightarrow> [''blood_o_positive'', ''surgical_gloves'', ''anesthesia_propofol'']
                   | Some xs \<Rightarrow> xs)
      in check_supplies e items w)"

subsection \<open>ClinicalAgent\<close>

record patient =
  name :: string
  age :: int
  allergies :: "string list"
  current_medications :: "string list"
  conditions :: "string list"

text \<open>\<open>self.patients\<close>, set once in \<open>__init__\<close>.\<close>

definition patients :: "string \<Rightarrow> patient option" where
  "patients = Map.empty(''patient_123'' \<mapsto>
     \<lparr>name = ''Jane Doe'', age = 32, allergies = [], current_medications = [],
      conditions = [''pregnancy'']\<rparr>)"

definition clinical_system_prompt :: string where
  "clinical_system_prompt = join nl
     [''You are a clinical safety officer.'',
      ''Analyze proposed treatments for safety issues:'',
      ''1. Drug interactions'',
      ''2. Contraindications'',
      ''3. Allergy risks'',
      ''4. Protocol compliance'',
      '''',
      ''Respond in format:'',
      ''SAFETY_STATUS: [SAFE/CAUTION/UNSAFE]'',
      ''INTERACTIONS: [any drug interactions]'',
      ''CONTRAINDICATIONS: [any issues]'',
      ''RECOMMENDATIONS: [clinical guidance]'']"

text \<open>
  \<open>self.patients.get(patient_id, {})\<close>: an unknown id gives the empty dictionary, on
  which every \<open>patient.get(key, default)\<close> returns its default.
\<close>

definition clinical_messages :: "string \<Rightarrow> string \<Rightarrow> message list" where
  "clinical_messages patient_id proposed_treatment =
     (let p = patients patient_id
      in [\<lparr>role = ''system'', content = clinical_system_prompt\<rparr>,
          \<lparr>role = ''user'',
           content =
             ''Patient: '' @ (case p of None \<Rightarrow> ''Unknown'' | Some r \<Rightarrow> name r) @ nl @
             ''Age: '' @ (case p of None \<Rightarrow> ''Unknown'' | Some r \<Rightarrow> str_int (age r)) @ nl @
             ''Allergies: '' @
               join '', '' (case p of None \<Rightarrow> [''None''] | Some r \<Rightarrow> allergies r) @ nl @
             ''Current medications: '' @
               join '', '' (case p of None \<Rightarrow> [''None''] | Some r \<Rightarrow> current_medications r) @ nl @
             ''Conditions: '' @
               join '', '' (case p of None \<Rightarrow> [''None''] | Some r \<Rightarrow> conditions r) @ nl @
             nl @
             ''Proposed treatment: '' @ proposed_treatment\<rparr>])"

definition check_safety :: "env \<Rightarrow> string \<Rightarrow> string \<Rightarrow> world \<Rightarrow> agent_result \<times> world" where
  "check_safety e patient_id proposed_treatment w =
     (case create e \<lparr>model = ''sonar-pro'',
                     messages = clinical_messages patient_id proposed_treatment,
                     max_tokens = 400\<rparr> w of
        (Inr reply, w') \<Rightarrow> (Clinical_Analyzed patient_id proposed_treatment reply, w')
      | (Inl cause, w') \<Rightarrow> (Agent_Error cause, w'))"

definition clinical_execute :: "env \<Rightarrow> string \<Rightarrow> string \<Rightarrow> world \<Rightarrow> agent_result \<times> world" where
  "clinical_execute e patient_id task w = check_safety e patient_id task w"

subsection \<open>DischargeAgent\<close>

definition discharge_system_prompt :: string where
  "discharge_system_prompt = join nl
     [''You are a discharge planning coordinator.'',
      ''Create a comprehensive discharge plan including:'',
      ''1. Home care arrangements'',
      ''2. Medication instructions'',
      ''3. Follow-up appointments'',
      ''4. Warning signs to watch for'',
      '''',
      ''Respond in format:'',
      ''HOME_CARE: [arrangements needed]'',
      ''MEDICATIONS: [instructions]'',
      ''FOLLOW_UP: [appointment schedule]'',
      ''WARNING_SIGNS: [what to watch for]'',
      ''TIMELINE: [discharge readiness]'']"

definition discharge_messages :: "string \<Rightarrow> string \<Rightarrow> message list" where
  "discharge_messages patient_id condition =
     [\<lparr>role = ''system'', content = discharge_system_prompt\<rparr>,
      \<lparr>role = ''user'',
       content = ''Patient: '' @ patient_id @ nl @ ''Condition: '' @ condition @ nl @
                 ''Create discharge plan.''\<rparr>]"

definition create_discharge_plan ::
  "env \<Rightarrow> string \<Rightarrow> string \<Rightarrow> world \<Rightarrow> agent_result \<times> world" where
  "create_discharge_plan e patient_id condition w =
     (case create e \<lparr>model = ''sonar-pro'', messages = discharge_messages patient_id condition,
                     max_tokens = 500\<rparr> w of
        (Inr reply, w') \<Rightarrow> (Plan_Created patient_id reply, w')
      | (Inl cause, w') \<Rightarrow> (Agent_Error cause, w'))"

definition discharge_execute :: "env \<Rightarrow> string \<Rightarrow> string \<Rightarrow> world \<Rightarrow> agent_result \<times> world" where
  "discharge_execute e patient_id task w = create_discharge_plan e patient_id task w"

section \<open>MediCoordinator\<close>

text \<open>
  The dictionary \<open>process_request\<close> returns, with the keys \<open>routing\<close>, \<open>results\<close>,
  \<open>status\<close> and \<open>metrics\<close>. \<open>results\<close> is keyed by \<open>supply_chain\<close>, \<open>clinical\<close> and
  \<open>discharge\<close>, in the order the entries were stored.
\<close>

record coordination =
  c_routing :: routing
  c_results :: "(string \<times> agent_result) list"
  c_status :: string
  c_metrics :: summary_stats

text \<open>Step 2 of \<open>process_request\<close>: the three guarded calls, in source order.\<close>

definition execute_agent_tasks ::
  "env \<Rightarrow> string \<Rightarrow> string \<Rightarrow> string list \<Rightarrow> world \<Rightarrow> (string \<times> agent_result) list \<times> world" where
  "execute_agent_tasks e request patient_id needed w =
     (let results0 = [];
          (results1, w1) =
            (if ''supply_chain_agent'' \<in> set needed
             then (case supply_execute e request
                          (Some [''blood_o_positive'', ''anesthesia_propofol'',
                                 ''sterile_instruments'']) w of
                     (r, w') \<Rightarrow> (results0 @ [(''supply_chain'', r)], w'))
             else (results0, w));
          (results2, w2) =
            (if ''clinical_agent'' \<in> set needed
             then (case clinical_execute e patient_id request w1 of
                     (r, w') \<Rightarrow> (results1 @ [(''clinical'', r)], w'))
             else (results1, w1));
          (results3, w3) =
            (if ''discharge_agent'' \<in> set needed
             then (case discharge_execute e patient_id request w2 of
                     (r, w') \<Rightarrow> (results2 @ [(''discharge'', r)], w'))
             else (results2, w2))
      in (results3, w3))"

text \<open>
  \<open>process_request\<close> returns \<open>None\<close> (a bare \<open>return\<close>) when the routing carries an
  error, and the dictionary otherwise. Console output is left out.
\<close>

definition process_request ::
  "env \<Rightarrow> string \<Rightarrow> string \<Rightarrow> world \<Rightarrow> coordination option \<times> world" where
  "process_request e request patient_id w =
     (case coordinate e request w of
        (rt, w0) \<Rightarrow>
          if error rt \<noteq> None then (None, w0)
          else
            (let needed = agents_needed rt;
                 (start, w1) = time_time e w0;
                 (results, w2) = execute_agent_tasks e request patient_id needed w1;
                 (finish, w3) = time_time e w2;
                 elapsed = finish - start;
                 all_safe = list_all (\<lambda>result. \<not> has_error result) (map snd results);
                 st = (if all_safe then ''approved'' else ''review_required'');
                 (logged, w4) = log_request e (take 50 request) needed elapsed st w3;
                 (stats, w5) = get_summary_stats e w4
             in (Some \<lparr>c_routing = rt, c_results = results, c_status = st,
                        c_metrics = stats\<rparr>, w5)))"


section \<open>What the specification calls an occurrence\<close>

text \<open>
  The specification speaks of a keyword occurring case-insensitively anywhere in the
  reply. Written from those words, without \<open>lower\<close>: two characters are the same letter
  when they are equal, or one is an ASCII capital and the other its small letter (32
  code points above); a keyword occurs where some contiguous piece of the text matches
  it letter by letter.
\<close>

definition same_letter :: "char \<Rightarrow> char \<Rightarrow> bool" where
  "same_letter c k =
     (let n = (of_char c :: nat); m = (of_char k :: nat)
      in n = m \<or> (65 \<le> n \<and> n \<le> 90 \<and> n + 32 = m) \<or> (65 \<le> m \<and> m \<le> 90 \<and> m + 32 = n))"

fun ci_prefix :: "string \<Rightarrow> string \<Rightarrow> bool" where
  "ci_prefix [] cs = True"
| "ci_prefix (k # ks) [] = False"
| "ci_prefix (k # ks) (c # cs) = (same_letter c k \<and> ci_prefix ks cs)"

fun occurs_ci :: "string \<Rightarrow> string \<Rightarrow> bool" where
  "occurs_ci kw [] = (kw = [])"
| "occurs_ci kw (c # cs) = (ci_prefix kw (c # cs) \<or> occurs_ci kw cs)"

text \<open>The characters the three keywords are made of: small ASCII letters and the underscore.\<close>

definition key_char :: "char \<Rightarrow> bool" where
  "key_char k =
     ((97 \<le> (of_char k :: nat) \<and> (of_char k :: nat) \<le> 122) \<or> (of_char k :: nat) = 95)"


section \<open>A stubbed service and an empty tracker\<close>

text \<open>
  A completion service that answers every request with the same text, a clock that
  stands still, and the world right after start-up: the inputs of the concrete runs below.
\<close>

definition stub_env :: "string \<Rightarrow> env" where
  "stub_env reply = \<lparr>svc = (\<lambda>history rq. Inr reply), clock = (\<lambda>k. 0)\<rparr>"

definition failing_env :: "string \<Rightarrow> env" where
  "failing_env cause = \<lparr>svc = (\<lambda>history rq. Inl cause), clock = (\<lambda>k. 0)\<rparr>"

definition fresh_world :: world where
  "fresh_world = \<lparr>requests = [], start_time = 0, calls = [], ticks = 0\<rparr>"


section \<open>Substring search and lower-casing\<close>

lemma str_in_sublist: "str_in sub hay = sublist sub hay"
  by (induction hay) (simp_all add: sublist_Cons_right)

lemma str_in_append: "str_in sub (pre @ sub @ post)"
  by (simp add: str_in_sublist sublist_def) blast

lemma of_char_less_256: "(of_char c :: nat) < 256"
  by (metis of_char_mod_256 mod_less_divisor zero_less_numeral)

lemma char_of_small: "n < 256 \<Longrightarrow> (char_of (n::nat) = k) = (n = of_char k)"
  by (simp add: char_of_eq_iff take_bit_eq_mod)

lemma lower_char_key:
  assumes "key_char k"
  shows "(lower_char c = k) = same_letter c k"
proof -
  define n where "n = (of_char c :: nat)"
  define m where "m = (of_char k :: nat)"
  have eq: "(c = k) = (n = m)" by (simp add: n_def m_def)
  have key: "(97 \<le> m \<and> m \<le> 122) \<or> m = 95" using assms by (simp add: key_char_def m_def)
  have sl: "same_letter c k =
     (n = m \<or> (65 \<le> n \<and> n \<le> 90 \<and> n + 32 = m) \<or> (65 \<le> m \<and> m \<le> 90 \<and> m + 32 = n))"
    by (simp add: same_letter_def Let_def n_def m_def)
  show ?thesis
  proof (cases "(65 \<le> n \<and> n \<le> 90) \<or> (192 \<le> n \<and> n \<le> 222 \<and> n \<noteq> 215)")
    case True
    then have l: "lower_char c = char_of (n + 32)" by (simp add: lower_char_def Let_def n_def)
    have "n + 32 < 256" using True by auto
    then have a: "(lower_char c = k) = (n + 32 = m)" by (simp add: l char_of_small m_def)
    show ?thesis using True key unfolding a sl by auto
  next
    case False
    then have l: "lower_char c = c" unfolding lower_char_def Let_def n_def by auto
    show ?thesis using False key unfolding l eq sl by auto
  qed
qed

lemma prefix_lower:
  assumes "list_all key_char kw"
  shows "prefix kw (lower cs) = ci_prefix kw cs"
  using assms
proof (induction kw cs rule: ci_prefix.induct)
  case (1 cs)
  show ?case by simp
next
  case (2 k ks)
  show ?case by (simp add: lower_def)
next
  case (3 k ks c cs)
  have "(lower_char c = k) = same_letter c k" using 3(2) by (simp add: lower_char_key)
  moreover have "prefix ks (lower cs) = ci_prefix ks cs" using 3 by simp
  ultimately show ?case by (auto simp add: lower_def)
qed

lemma str_in_lower:
  assumes "list_all key_char kw"
  shows "str_in kw (lower hay) = occurs_ci kw hay"
proof (induction hay)
  case Nil
  show ?case by (simp add: lower_def)
next
  case (Cons c cs)
  have "prefix kw (lower (c # cs)) = ci_prefix kw (c # cs)" by (rule prefix_lower [OF assms])
  with Cons show ?case by (simp add: lower_def)
qed

lemma supply_chain_keyword:
  "str_in ''supply_chain'' (lower hay) = occurs_ci ''supply_chain'' hay"
  by (rule str_in_lower) (simp add: key_char_def)

lemma clinical_keyword: "str_in ''clinical'' (lower hay) = occurs_ci ''clinical'' hay"
  by (rule str_in_lower) (simp add: key_char_def)

lemma discharge_keyword: "str_in ''discharge'' (lower hay) = occurs_ci ''discharge'' hay"
  by (rule str_in_lower) (simp add: key_char_def)


section \<open>The classifier\<close>

lemma analyze_request_ok:
  assumes "svc e (calls w) (classifier_request request) = Inr reply"
  shows "analyze_request e request w =
           (\<lparr>error = None, agents_needed = parse_agents reply, priority = parse_priority reply,
             analysis = Some reply, original_request = Some request\<rparr>,
            w\<lparr>calls := calls w @ [classifier_request request]\<rparr>)"
  using assms by (simp add: analyze_request_def create_def)

lemma analyze_request_error:
  assumes "svc e (calls w) (classifier_request request) = Inl cause"
  shows "analyze_request e request w =
           (\<lparr>error = Some cause, agents_needed = [], priority = ''UNKNOWN'',
             analysis = None, original_request = None\<rparr>,
            w\<lparr>calls := calls w @ [classifier_request request]\<rparr>)"
  using assms by (simp add: analyze_request_def create_def)

lemma coordinate_eq: "coordinate e request w = analyze_request e request w"
  by (simp add: coordinate_def split: prod.splits)

lemma parse_agents_mem:
  "(''supply_chain_agent'' \<in> set (parse_agents reply)) = str_in ''supply_chain'' (lower reply)"
  "(''clinical_agent'' \<in> set (parse_agents reply)) = str_in ''clinical'' (lower reply)"
  "(''discharge_agent'' \<in> set (parse_agents reply)) = str_in ''discharge'' (lower reply)"
  by (simp_all add: parse_agents_def Let_def)

text \<open>
  C10. Whatever the reply says, the list of responders the classifier returns has no
  duplicates and is a sublist, in order, of supply chain, clinical, discharge; so it
  has at most three entries. This holds on the error path too, where the list is empty.
\<close>

theorem agents_needed_ordered_sublist:
  "subseq (agents_needed (fst (analyze_request e request w)))
          [''supply_chain_agent'', ''clinical_agent'', ''discharge_agent''] \<and>
   distinct (agents_needed (fst (analyze_request e request w))) \<and>
   length (agents_needed (fst (analyze_request e request w))) \<le> 3 \<and>
   subseq (parse_agents reply) [''supply_chain_agent'', ''clinical_agent'', ''discharge_agent''] \<and>
   distinct (parse_agents reply) \<and> length (parse_agents reply) \<le> 3"
proof -
  have p: "subseq (parse_agents r) [''supply_chain_agent'', ''clinical_agent'', ''discharge_agent''] \<and>
           distinct (parse_agents r) \<and> length (parse_agents r) \<le> 3" for r
    by (simp add: parse_agents_def Let_def)
  show ?thesis
  proof (cases "svc e (calls w) (classifier_request request)")
    case (Inl cause)
    then show ?thesis using p [of reply] by (simp add: analyze_request_error)
  next
    case (Inr r)
    then show ?thesis using p [of reply] p [of r] by (simp add: analyze_request_ok)
  qed
qed

text \<open>
  C3. On a classification that did not fail, the priority is HIGH exactly when the reply
  contains the upper-case text HIGH somewhere, and MEDIUM otherwise; the priority is
  UNKNOWN exactly when the service call failed.
\<close>

theorem priority_from_reply:
  "priority (fst (analyze_request e request w)) =
     (case svc e (calls w) (classifier_request request) of
        Inl cause \<Rightarrow> ''UNKNOWN''
      | Inr reply \<Rightarrow> if (\<exists>pre post. reply = pre @ ''HIGH'' @ post) then ''HIGH'' else ''MEDIUM'') \<and>
   (priority (fst (analyze_request e request w)) = ''UNKNOWN'') =
     (\<exists>cause. svc e (calls w) (classifier_request request) = Inl cause)"
proof (cases "svc e (calls w) (classifier_request request)")
  case (Inl cause)
  then show ?thesis by (simp add: analyze_request_error)
next
  case (Inr reply)
  have "str_in ''HIGH'' reply = (\<exists>pre post. reply = pre @ ''HIGH'' @ post)"
    by (simp add: str_in_sublist sublist_def)
  then show ?thesis using Inr by (simp add: analyze_request_ok parse_priority_def)
qed

text \<open>
  C1. On a classification that did not fail, each responder is in the list exactly when
  its keyword (supply_chain, clinical, discharge) occurs in the reply, in any mix of
  upper and lower case, anywhere. What the reply says about the keyword plays no part:
  the witness runs the classifier on a reply that calls the clinical agent not required.
\<close>

theorem responder_selected_iff_keyword:
  assumes "svc e (calls w) (classifier_request request) = Inr reply"
  shows "(''supply_chain_agent'' \<in> set (agents_needed (fst (analyze_request e request w)))) =
           occurs_ci ''supply_chain'' reply \<and>
         (''clinical_agent'' \<in> set (agents_needed (fst (analyze_request e request w)))) =
           occurs_ci ''clinical'' reply \<and>
         (''discharge_agent'' \<in> set (agents_needed (fst (analyze_request e request w)))) =
           occurs_ci ''discharge'' reply"
  using assms
  by (simp add: analyze_request_ok parse_agents_mem supply_chain_keyword clinical_keyword
      discharge_keyword)

theorem responder_selected_iff_keyword_witness:
  "''clinical_agent'' \<in> set (agents_needed (fst (analyze_request
      (stub_env ''AGENTS_NEEDED: supply_chain_agent. The Clinical agent is not required.'')
      ''Check the stock of gloves'' fresh_world))) \<and>
   ''supply_chain_agent'' \<in> set (agents_needed (fst (analyze_request
      (stub_env ''AGENTS_NEEDED: supply_chain_agent. The Clinical agent is not required.'')
      ''Check the stock of gloves'' fresh_world))) \<and>
   ''discharge_agent'' \<notin> set (agents_needed (fst (analyze_request
      (stub_env ''AGENTS_NEEDED: supply_chain_agent. The Clinical agent is not required.'')
      ''Check the stock of gloves'' fresh_world)))"
proof -
  define r where "r = ''AGENTS_NEEDED: supply_chain_agent. The Clinical agent is not required.''"
  have h: "svc (stub_env r) (calls fresh_world) (classifier_request ''Check the stock of gloves'')
             = Inr r"
    by (simp add: stub_env_def)
  have a: "occurs_ci ''clinical'' r" unfolding r_def by code_simp
  have b: "occurs_ci ''supply_chain'' r" unfolding r_def by code_simp
  have c: "\<not> occurs_ci ''discharge'' r" unfolding r_def by code_simp
  have "''clinical_agent'' \<in> set (agents_needed (fst (analyze_request (stub_env r)
            ''Check the stock of gloves'' fresh_world))) \<and>
        ''supply_chain_agent'' \<in> set (agents_needed (fst (analyze_request (stub_env r)
            ''Check the stock of gloves'' fresh_world))) \<and>
        ''discharge_agent'' \<notin> set (agents_needed (fst (analyze_request (stub_env r)
            ''Check the stock of gloves'' fresh_world)))"
    using responder_selected_iff_keyword [OF h] a b c by blast
  then show ?thesis unfolding r_def .
qed

end
